theory Spec2Isabelle
  imports Complex_Main "HOL-Library.AList" "HOL-Library.List_Lexorder" "HOL-Library.Char_ord"
begin

section \<open>make\_submission.py: masks to submission rows\<close>

text \<open>
  A shallow embedding of \<^verbatim>\<open>src/make_submission.py\<close>. Python floats are taken as
  real numbers, and the rounding to float16 is a function of the record \<open>env\<close>; the
  rounding and overflow of double arithmetic are not modelled, so nothing here is about
  a floating tolerance; Python ints as \<open>int\<close>;
  a dict as an association list with distinct keys, updated by \<open>AList.update\<close>
  (an assignment to an existing key keeps its place, a new key goes last, as in Python);
  a three-dimensional numpy array as its shape with an index function.
  The collaborators outside the file (\<^verbatim>\<open>utils\<close>, the model, shapely's WKT
  reader and writer) are the fields of the record \<open>env\<close>, so every theorem holds for
  whatever they compute. Calls of \<^verbatim>\<open>logger.info\<close> have no effect on any value
  and are left out.
\<close>

subsection \<open>Errors\<close>

datatype error =
    AssertionError
  | ZeroDivisionError
  | KeyError
  | ValueError
  | StopIteration
  | WKTReadingError
  | IndexError

subsection \<open>\<^verbatim>\<open>str\<close> of an integer\<close>

definition digit_char :: "nat \<Rightarrow> char" where
  "digit_char d = ''0123456789'' ! d"

fun str_nat :: "nat \<Rightarrow> string" where
  "str_nat n = (if n < 10 then [digit_char n] else str_nat (n div 10) @ [digit_char (n mod 10)])"

declare str_nat.simps [simp del]

definition str_int :: "int \<Rightarrow> string" where
  "str_int i = (if i < 0 then CHR ''-'' # str_nat (nat (- i)) else str_nat (nat i))"

subsection \<open>Geometry: shapely's MultiPolygon and \<^verbatim>\<open>shapely.affinity.scale\<close>\<close>

type_synonym point = "real \<times> real"
type_synonym ring = "point list"

datatype polygon = Polygon (exterior: ring) (interiors: "ring list")

type_synonym multipolygon = "polygon list"

fun map_polygon :: "(point \<Rightarrow> point) \<Rightarrow> polygon \<Rightarrow> polygon" where
  "map_polygon f (Polygon shell holes) = Polygon (map f shell) (map (map f) holes)"

definition map_points :: "(point \<Rightarrow> point) \<Rightarrow> multipolygon \<Rightarrow> multipolygon" where
  "map_points f geom = map (map_polygon f) geom"

text \<open>
  \<^verbatim>\<open>affine_transform(geom, [a, b, d, e, xoff, yoff])\<close> sends every vertex \<open>(x, y)\<close> of
  every ring of every part to \<open>(a x + b y + xoff, d x + e y + yoff)\<close>.
\<close>

definition affine_transform :: "multipolygon \<Rightarrow> real \<times> real \<times> real \<times> real \<times> real \<times> real \<Rightarrow> multipolygon" where
  "affine_transform geom matrix =
     (case matrix of (a, b, d, e, xoff, yoff) \<Rightarrow>
        map_points (\<lambda>(x, y). (a * x + b * y + xoff, d * x + e * y + yoff)) geom)"

text \<open>
  \<^verbatim>\<open>scale(geom, xfact, yfact, origin=(x0, y0, 0))\<close> is the affine transformation with
  matrix \<open>(xfact, 0, 0, yfact)\<close> and offset \<open>(x0 - x0 xfact, y0 - y0 yfact)\<close>.
  The products and sums are those of the real numbers: which factors and which origin
  are applied is modelled, the rounding of each product is not.
\<close>

definition scale :: "multipolygon \<Rightarrow> real \<Rightarrow> real \<Rightarrow> point \<Rightarrow> multipolygon" where
  "scale geom xfact yfact origin =
     (case origin of (x0, y0) \<Rightarrow>
        affine_transform geom (xfact, 0, 0, yfact, x0 - x0 * xfact, y0 - y0 * yfact))"

subsection \<open>Arrays\<close>

record 'a ndarray =
  shape :: "nat \<times> nat \<times> nat"
  item :: "nat \<Rightarrow> nat \<Rightarrow> nat \<Rightarrow> 'a"

record 'a ndarray2 =
  shape2 :: "nat \<times> nat"
  item2 :: "nat \<Rightarrow> nat \<Rightarrow> 'a"

text \<open>\<^verbatim>\<open>mask.shape[:2]\<close> and \<^verbatim>\<open>mask.shape[-1]\<close>.\<close>

definition shape_hw :: "'a ndarray \<Rightarrow> nat \<times> nat" where
  "shape_hw a = (case shape a of (h, w, c) \<Rightarrow> (h, w))"

definition shape_last :: "'a ndarray \<Rightarrow> nat" where
  "shape_last a = (case shape a of (h, w, c) \<Rightarrow> c)"

text \<open>\<^verbatim>\<open>mask[:, :, cls_idx]\<close>; an index beyond the last axis raises.\<close>

definition channel :: "'a ndarray \<Rightarrow> nat \<Rightarrow> error + 'a ndarray2" where
  "channel a k =
     (if k < shape_last a
      then Inr \<lparr>shape2 = shape_hw a, item2 = (\<lambda>i j. item a i j k)\<rparr>
      else Inl IndexError)"

subsection \<open>Dictionaries and comprehensions\<close>

type_synonym ('k, 'v) dict = "('k \<times> 'v) list"

text \<open>\<^verbatim>\<open>d[k]\<close> raises KeyError when the key is missing.\<close>

definition getitem :: "('k, 'v) dict \<Rightarrow> 'k \<Rightarrow> error + 'v" where
  "getitem d k = (case map_of d k of None \<Rightarrow> Inl KeyError | Some v \<Rightarrow> Inr v)"

text \<open>
  A list comprehension whose element expression may raise: the elements are evaluated
  from left to right and the first exception ends the comprehension.
\<close>

fun collect :: "('a \<Rightarrow> error + 'b) \<Rightarrow> 'a list \<Rightarrow> error + 'b list" where
  "collect f [] = Inr []"
| "collect f (x # xs) =
     (case f x of
        Inl e \<Rightarrow> Inl e
      | Inr y \<Rightarrow> (case collect f xs of Inl e \<Rightarrow> Inl e | Inr ys \<Rightarrow> Inr (y # ys)))"

subsection \<open>The collaborators\<close>

record env =
  get_scalers :: "string \<Rightarrow> nat \<times> nat \<Rightarrow> real \<times> real"
  mask_to_polygons :: "bool ndarray2 \<Rightarrow> real \<Rightarrow> multipolygon"
  get_wkt_data :: "(string, (int, string) dict) dict"
  wkt_dumps :: "multipolygon \<Rightarrow> string"
  wkt_loads :: "string \<Rightarrow> error + multipolygon"
  intersection_area :: "multipolygon \<Rightarrow> multipolygon \<Rightarrow> real"
  union_area :: "multipolygon \<Rightarrow> multipolygon \<Rightarrow> real"
  mask_for_polygons :: "nat \<times> nat \<Rightarrow> multipolygon \<Rightarrow> bool ndarray2"
  mask_tp_fp_fn :: "bool ndarray2 \<Rightarrow> bool ndarray2 \<Rightarrow> real \<Rightarrow> real \<times> real \<times> real"
  image_data_shape :: "string \<Rightarrow> nat \<times> nat"
  image_prediction :: "string \<Rightarrow> real ndarray"
  astype_float16 :: "real \<Rightarrow> real"

text \<open>
  \<^verbatim>\<open>mask > threshold\<close>, elementwise. The cached mask is a float16 array and the threshold
  a Python float: numpy converts the scalar to the type of the array and compares in
  float16, so every element is compared with the threshold rounded to float16
  (\<open>astype_float16\<close>, the rounding that \<^verbatim>\<open>astype(np.float16)\<close> applies to each element).
\<close>

definition greater_than :: "env \<Rightarrow> real ndarray \<Rightarrow> real \<Rightarrow> bool ndarray" where
  "greater_than env a threshold =
     \<lparr>shape = shape a, item = (\<lambda>i j k. item a i j k > astype_float16 env threshold)\<rparr>"

text \<open>
  Modelled from the spec: \<^verbatim>\<open>utils.scale_to_mask\<close> is not part of the file. The spec
  has it rescale a reference polygon into pixel space "using the forward ScalerPair (the
  non-inverted form)"; the origin is the one extraction uses.
\<close>

definition scale_to_mask :: "env \<Rightarrow> string \<Rightarrow> nat \<times> nat \<Rightarrow> multipolygon \<Rightarrow> multipolygon" where
  "scale_to_mask env im_id im_size poly =
     (case get_scalers env im_id im_size of (x_scaler, y_scaler) \<Rightarrow>
        scale poly x_scaler y_scaler (0, 0))"

subsection \<open>\<^verbatim>\<open>get_polygons\<close>\<close>

text \<open>The loop over \<^verbatim>\<open>enumerate(classes)\<close>, with the dict it fills as accumulator.\<close>

fun polygons_loop ::
  "env \<Rightarrow> bool ndarray \<Rightarrow> real \<Rightarrow> real \<Rightarrow> real \<Rightarrow> (nat \<times> int) list
     \<Rightarrow> (int, multipolygon) dict \<Rightarrow> error + (int, multipolygon) dict" where
  "polygons_loop env msk epsilon x_scaler y_scaler [] poly_by_type = Inr poly_by_type"
| "polygons_loop env msk epsilon x_scaler y_scaler ((cls_idx, cls) # rest) poly_by_type =
     (let poly_type = cls + 1 in
      case channel msk cls_idx of
        Inl e \<Rightarrow> Inl e
      | Inr cls_mask \<Rightarrow>
          (let polygons = mask_to_polygons env cls_mask epsilon in
           polygons_loop env msk epsilon x_scaler y_scaler rest
             (AList.update poly_type (scale polygons x_scaler y_scaler (0, 0)) poly_by_type)))"

text \<open>
  The scalers are Python floats, so \<^verbatim>\<open>1 / x_scaler\<close> raises ZeroDivisionError for a zero
  factor; this happens before the assertion on the class count is reached.
\<close>

definition get_polygons ::
  "env \<Rightarrow> string \<Rightarrow> bool ndarray \<Rightarrow> real \<Rightarrow> int list \<Rightarrow> error + (int, multipolygon) dict" where
  "get_polygons env im_id msk epsilon classes =
     (let im_size = shape_hw msk in
      case get_scalers env im_id im_size of (x_scaler, y_scaler) \<Rightarrow>
        if x_scaler = 0 then Inl ZeroDivisionError
        else let x_scaler = 1 / x_scaler in
        if y_scaler = 0 then Inl ZeroDivisionError
        else let y_scaler = 1 / y_scaler in
        if length classes \<noteq> shape_last msk then Inl AssertionError
        else polygons_loop env msk epsilon x_scaler y_scaler (enumerate 0 classes) [])"

text \<open>
  The assignments \<^verbatim>\<open>poly_by_type[poly_type] = ...\<close> of the loop, in order, when every
  channel index is within the mask.
\<close>

definition channel_entries ::
  "env \<Rightarrow> bool ndarray \<Rightarrow> real \<Rightarrow> real \<Rightarrow> real \<Rightarrow> (nat \<times> int) list \<Rightarrow> (int \<times> multipolygon) list" where
  "channel_entries env msk eps xs ys ics =
     map (\<lambda>(i, c). (c + 1,
            scale (mask_to_polygons env \<lparr>shape2 = shape_hw msk, item2 = (\<lambda>a b. item msk a b i)\<rparr> eps)
              xs ys (0, 0))) ics"

subsection \<open>\<^verbatim>\<open>log_jaccard\<close>\<close>

text \<open>One round of the loop; its value is the logged triple (class, polygon Jaccard, mask Jaccard).\<close>

text \<open>Division of Python numbers: a zero divisor raises.\<close>

definition divide_float :: "real \<Rightarrow> real \<Rightarrow> error + real" where
  "divide_float a b = (if b = 0 then Inl ZeroDivisionError else Inr (a / b))"

definition log_jaccard_round ::
  "env \<Rightarrow> string \<Rightarrow> (int, multipolygon) dict \<Rightarrow> (int, string) dict \<Rightarrow> bool ndarray \<Rightarrow> real
     \<Rightarrow> nat \<times> int \<Rightarrow> error + int \<times> real \<times> real" where
  "log_jaccard_round env im_id poly_by_type train_polygons msk threshold =
     (\<lambda>(cls_idx, cls).
        let im_size = shape_hw msk; poly_type = cls + 1 in
        case getitem poly_by_type poly_type of
          Inl e \<Rightarrow> Inl e
        | Inr poly \<Rightarrow>
       (case getitem train_polygons poly_type of
          Inl e \<Rightarrow> Inl e
        | Inr wkt \<Rightarrow>
       (case wkt_loads env wkt of
          Inl e \<Rightarrow> Inl e
        | Inr train_poly \<Rightarrow>
       (let scaled_train_poly = scale_to_mask env im_id im_size train_poly in
        case channel msk cls_idx of
          Inl e \<Rightarrow> Inl e
        | Inr pred_mask \<Rightarrow>
       (let true_mask = mask_for_polygons env im_size scaled_train_poly in
        case mask_tp_fp_fn env pred_mask true_mask threshold of
          (tp, fp, fn) \<Rightarrow>
       (let eps = 1 / 10 ^ 15 in
        case divide_float (intersection_area env poly train_poly)
                          (union_area env poly train_poly + eps) of
          Inl e \<Rightarrow> Inl e
        | Inr polygon_jaccard \<Rightarrow>
       (case divide_float tp (tp + fp + fn + eps) of
          Inl e \<Rightarrow> Inl e
        | Inr mask_jaccard \<Rightarrow> Inr (cls, polygon_jaccard, mask_jaccard))))))))"

definition log_jaccard ::
  "env \<Rightarrow> string \<Rightarrow> (int, multipolygon) dict \<Rightarrow> (int, string) dict \<Rightarrow> bool ndarray
     \<Rightarrow> int list \<Rightarrow> real \<Rightarrow> error + (int \<times> real \<times> real) list" where
  "log_jaccard env im_id poly_by_type train_polygons msk classes threshold =
     collect (log_jaccard_round env im_id poly_by_type train_polygons msk threshold)
       (enumerate 0 classes)"

subsection \<open>\<^verbatim>\<open>get_poly_data\<close>\<close>

type_synonym row = "string \<times> string \<times> string"
type_synonym store = "string \<rightharpoonup> real ndarray"

text \<open>The rows of the branch with reference polygons: \<^verbatim>\<open>train_polygons[cls + 1]\<close> may raise.\<close>

definition train_rows :: "string \<Rightarrow> (int, string) dict \<Rightarrow> int list \<Rightarrow> error + row list" where
  "train_rows im_id train_polygons classes =
     collect (\<lambda>cls. case getitem train_polygons (cls + 1) of
                       Inl e \<Rightarrow> Inl e
                     | Inr wkt \<Rightarrow> Inr (im_id, str_int (cls + 1), wkt)) classes"

text \<open>
  The rows of the branch without reference polygons. \<^verbatim>\<open>sorted(poly_by_type.items())\<close>
  orders the pairs by key: the keys of a dict are distinct, so two polygon collections are
  never compared.
\<close>

definition predicted_rows :: "env \<Rightarrow> string \<Rightarrow> (int, multipolygon) dict \<Rightarrow> row list" where
  "predicted_rows env im_id poly_by_type =
     map (\<lambda>(poly_type, polygons). (im_id, str_int poly_type, wkt_dumps env polygons))
       (sort_key fst poly_by_type)"

definition empty_rows :: "string \<Rightarrow> int list \<Rightarrow> row list" where
  "empty_rows im_id classes = map (\<lambda>cls. (im_id, str_int (cls + 1), ''MULTIPOLYGON EMPTY'')) classes"

text \<open>
  \<^verbatim>\<open>mask_path.exists()\<close> is \<open>store im_id \<noteq> None\<close>; \<^verbatim>\<open>if train_polygons:\<close> is false
  for a missing image and for an empty dict.
\<close>

definition get_poly_data ::
  "env \<Rightarrow> store \<Rightarrow> int list \<Rightarrow> real \<Rightarrow> real \<Rightarrow> string \<Rightarrow> error + row list" where
  "get_poly_data env store classes threshold epsilon im_id =
     (let train_polygons = map_of (get_wkt_data env) im_id in
      case store im_id of
        Some cached \<Rightarrow>
          (let msk = greater_than env cached threshold in
           case get_polygons env im_id msk epsilon classes of
             Inl e \<Rightarrow> Inl e
           | Inr poly_by_type \<Rightarrow>
               (case train_polygons of
                  Some (entry # entries) \<Rightarrow>
                    (case log_jaccard env im_id poly_by_type (entry # entries) msk
                            classes threshold of
                       Inl e \<Rightarrow> Inl e
                     | Inr logged \<Rightarrow> train_rows im_id (entry # entries) classes)
                | _ \<Rightarrow> Inr (predicted_rows env im_id poly_by_type)))
      | None \<Rightarrow> Inr (empty_rows im_id classes))"

subsection \<open>\<^verbatim>\<open>main\<close>: the targets and the mask phase\<close>

text \<open>
  The part of \<^verbatim>\<open>main\<close> up to the end of the loop that predicts the missing masks.
  The parsed rows of \<^verbatim>\<open>sample_submission.csv\<close> and the files of the store directory
  at the start are arguments. The state of the loop is the store together with the
  identifiers inference was run for, in that order.
\<close>

record args =
  args_output :: string
  args_train_only :: bool
  args_only :: "string option"
  args_threshold :: real
  args_epsilon :: real
  args_masks_only :: bool

text \<open>\<^verbatim>\<open>s.split(sep)\<close> for a separator of one character.\<close>

fun split_char :: "char \<Rightarrow> string \<Rightarrow> string list" where
  "split_char sep [] = [[]]"
| "split_char sep (c # cs) =
     (if c = sep then [] # split_char sep cs
      else (case split_char sep cs of [] \<Rightarrow> [[c]] | w # ws \<Rightarrow> (c # w) # ws))"

definition endswith :: "string \<Rightarrow> string \<Rightarrow> bool" where
  "endswith s suffix = (length suffix \<le> length s \<and> drop (length s - length suffix) s = suffix)"

text \<open>\<^verbatim>\<open>only = set(args.only.split(',')) if args.only else set()\<close>\<close>

definition only_ids :: "string option \<Rightarrow> string set" where
  "only_ids only =
     (case only of
        None \<Rightarrow> {}
      | Some s \<Rightarrow> if s = [] then {} else set (split_char CHR '','' s))"

text \<open>
  \<^verbatim>\<open>[im_id for im_id, cls, _ in reader if cls == '1']\<close>: a row that does not have
  exactly three fields cannot be unpacked.
\<close>

fun image_ids_of :: "string list list \<Rightarrow> error + string list" where
  "image_ids_of [] = Inr []"
| "image_ids_of (row # reader) =
     (case row of
        [im_id, cls, geom] \<Rightarrow>
          (case image_ids_of reader of
             Inl e \<Rightarrow> Inl e
           | Inr image_ids \<Rightarrow> Inr (if cls = ''1'' then im_id # image_ids else image_ids))
      | _ \<Rightarrow> Inl ValueError)"

text \<open>\<^verbatim>\<open>to_predict = train_ids if args.train_only else set(only or image_ids)\<close>\<close>

definition to_predict :: "env \<Rightarrow> bool \<Rightarrow> string set \<Rightarrow> string list \<Rightarrow> string set" where
  "to_predict env train_only only image_ids =
     (let train_ids = set (map fst (get_wkt_data env)) in
      if train_only then train_ids
      else if only \<noteq> {} then only else set image_ids)"

record run_state =
  files :: store
  predicted :: "string list"

definition astype :: "env \<Rightarrow> real ndarray \<Rightarrow> real ndarray" where
  "astype env a = \<lparr>shape = shape a, item = (\<lambda>i j k. astype_float16 env (item a i j k))\<rparr>"

fun predict_masks :: "env \<Rightarrow> string list \<Rightarrow> run_state \<Rightarrow> error option \<times> run_state" where
  "predict_masks env [] st = (None, st)"
| "predict_masks env (im_id # rest) st =
     (if files st im_id \<noteq> None then predict_masks env rest st
      else
        (let data_shape = image_data_shape env im_id;
             msk = astype env (image_prediction env im_id);
             st = st\<lparr>predicted := predicted st @ [im_id]\<rparr>
         in if shape_hw msk \<noteq> data_shape then (Some AssertionError, st)
            else predict_masks env rest (st\<lparr>files := (files st)(im_id \<mapsto> msk)\<rparr>)))"

definition main_masks :: "env \<Rightarrow> args \<Rightarrow> string list list \<Rightarrow> store \<Rightarrow> error option \<times> run_state" where
  "main_masks env args sample_submission stored =
     (let st = \<lparr>files = stored, predicted = []\<rparr>;
          only = only_ids (args_only args)
      in case sample_submission of
           [] \<Rightarrow> (Some StopIteration, st)
         | header # reader \<Rightarrow>
             (case image_ids_of reader of
                Inl e \<Rightarrow> (Some e, st)
              | Inr image_ids \<Rightarrow>
                  if \<not> endswith (args_output args) ''.csv'' then (Some AssertionError, st)
                  else predict_masks env
                         (sorted_list_of_set
                            (to_predict env (args_train_only args) only image_ids)) st))"

subsection \<open>The targets in the spec's words\<close>

datatype mode = TrainOnly | OnlyNamed | EveryRequired

definition spec_mode :: "bool \<Rightarrow> string option \<Rightarrow> mode" where
  "spec_mode train_only only =
     (if train_only then TrainOnly
      else if only \<noteq> None \<and> only \<noteq> Some [] then OnlyNamed
      else EveryRequired)"

definition spec_targets :: "env \<Rightarrow> bool \<Rightarrow> string option \<Rightarrow> string list list \<Rightarrow> string set" where
  "spec_targets env train_only only reader =
     (case spec_mode train_only only of
        TrainOnly \<Rightarrow> {im_id. map_of (get_wkt_data env) im_id \<noteq> None}
      | OnlyNamed \<Rightarrow> {im_id. \<exists>s. only = Some s \<and> im_id \<in> set (split_char CHR '','' s)}
      | EveryRequired \<Rightarrow> {im_id. \<exists>geom. [im_id, ''1'', geom] \<in> set reader})"

subsection \<open>A concrete run\<close>

definition example_mask :: "real ndarray" where
  "example_mask = \<lparr>shape = (1, 1, 2), item = (\<lambda>i j k. if k = 0 then 3 / 4 else 1 / 2)\<rparr>"

definition example_env :: env where
  "example_env =
     \<lparr>get_scalers = (\<lambda>im_id im_size. (2, 4)),
      mask_to_polygons =
        (\<lambda>m eps. if item2 m 0 0 then [Polygon [(0, 0), (2, 0), (2, 4), (0, 4), (0, 0)] []] else []),
      get_wkt_data =
        [(''6100_1_3'', [(1, ''MULTIPOLYGON (((0 0, 1 0, 1 1, 0 0)))''), (2, ''MULTIPOLYGON EMPTY'')])],
      wkt_dumps = (\<lambda>g. if g = [] then ''MULTIPOLYGON EMPTY'' else ''MULTIPOLYGON (...)''),
      wkt_loads = (\<lambda>s. Inr []),
      intersection_area = (\<lambda>a b. 0),
      union_area = (\<lambda>a b. 0),
      mask_for_polygons = (\<lambda>im_size g. \<lparr>shape2 = im_size, item2 = (\<lambda>i j. False)\<rparr>),
      mask_tp_fp_fn = (\<lambda>a b t. (0, 0, 0)),
      image_data_shape = (\<lambda>im_id. (1, 1)),
      image_prediction = (\<lambda>im_id. example_mask),
      astype_float16 = (\<lambda>v. v)\<rparr>"

text \<open>
  The same collaborators with a rounding that changes values: to the nearest multiple of
  a quarter (halves go up), a coarse grid in the place of the float16 numbers.
\<close>

definition coarse_env :: env where
  "coarse_env = example_env\<lparr>astype_float16 := (\<lambda>v. of_int \<lfloor>4 * v + 1 / 2\<rfloor> / 4)\<rparr>"

definition example_store :: store where
  "example_store = [''6100_1_3'' \<mapsto> example_mask, ''6020_0_0'' \<mapsto> example_mask]"

definition example_args :: args where
  "example_args =
     \<lparr>args_output = ''out.csv'', args_train_only = False,
      args_only = Some ''6100_1_3,6030_3_3'', args_threshold = 1 / 2, args_epsilon = 5,
      args_masks_only = False\<rparr>"

definition example_submission :: "string list list" where
  "example_submission =
     [[''ImageId'', ''ClassType'', ''MultipolygonWKT''],
      [''6020_0_0'', ''1'', ''MULTIPOLYGON EMPTY''],
      [''6020_0_0'', ''2'', ''MULTIPOLYGON EMPTY''],
      [''6040_2_2'', ''1'', ''MULTIPOLYGON EMPTY'']]"

section \<open>Lemmas\<close>

subsection \<open>Evaluating \<open>str_int\<close>\<close>

lemma str_int_small:
  "str_int 1 = ''1''" "str_int 2 = ''2''" "str_int 3 = ''3''" "str_int 10 = ''10''"
  by (simp_all add: str_int_def str_nat.simps digit_char_def)

subsection \<open>The coarse rounding\<close>

lemma mono_coarse_env: "mono (astype_float16 coarse_env)"
  by (auto simp: coarse_env_def mono_def intro!: divide_right_mono floor_mono)

subsection \<open>Scaling\<close>

lemma scale_origin_0: "scale geom xfact yfact (0, 0) = map_points (\<lambda>(x, y). (xfact * x, yfact * y)) geom"
  by (simp add: scale_def affine_transform_def)

lemma scale_reciprocal:
  "scale geom (1 / x_scaler) (1 / y_scaler) (0, 0) =
     map_points (\<lambda>(x, y). (x / x_scaler, y / y_scaler)) geom"
  by (simp add: scale_origin_0)

subsection \<open>Dict updates\<close>

lemma map_of_fold_update:
  "map_of (fold (\<lambda>(k, v). AList.update k v) kvs al) = map_of al ++ map_of (rev kvs)"
proof (induction kvs arbitrary: al)
  case Nil
  then show ?case by simp
next
  case (Cons kv kvs)
  obtain k v where kv: "kv = (k, v)" by (cases kv)
  show ?case
    by (simp add: kv Cons.IH update_conv' map_add_upd_left fun_eq_iff map_add_def split: option.splits)
qed

lemma keys_fold_update:
  "fst ` set (fold (\<lambda>(k, v). AList.update k v) kvs al) = fst ` set al \<union> fst ` set kvs"
proof (induction kvs arbitrary: al)
  case Nil
  then show ?case by simp
next
  case (Cons kv kvs)
  obtain k v where kv: "kv = (k, v)" by (cases kv)
  show ?case by (auto simp: kv Cons.IH dom_update)
qed

lemma distinct_fold_update:
  "distinct (map fst al) \<Longrightarrow> distinct (map fst (fold (\<lambda>(k, v). AList.update k v) kvs al))"
proof (induction kvs arbitrary: al)
  case Nil
  then show ?case by simp
next
  case (Cons kv kvs)
  obtain k v where kv: "kv = (k, v)" by (cases kv)
  show ?case using Cons.prems by (simp add: kv Cons.IH distinct_update)
qed

lemma set_update_subset: "set (AList.update k v al) \<subseteq> insert (k, v) (set al)"
  by (induction al) auto

lemma set_fold_update:
  "set (fold (\<lambda>(k, v). AList.update k v) kvs al) \<subseteq> set al \<union> set kvs"
proof (induction kvs arbitrary: al)
  case Nil
  then show ?case by simp
next
  case (Cons kv kvs)
  obtain k v where kv: "kv = (k, v)" by (cases kv)
  have "set (fold (\<lambda>(k, v). AList.update k v) kvs (AList.update k v al))
          \<subseteq> set (AList.update k v al) \<union> set kvs"
    by (rule Cons.IH)
  also have "\<dots> \<subseteq> insert (k, v) (set al) \<union> set kvs"
    using set_update_subset [of k v al] by auto
  finally show ?case by (auto simp: kv)
qed

lemma map_of_rev_last:
  "i < length kvs \<Longrightarrow> fst (kvs ! i) \<notin> fst ` set (drop (Suc i) kvs)
     \<Longrightarrow> map_of (rev kvs) (fst (kvs ! i)) = Some (snd (kvs ! i))"
proof (induction kvs arbitrary: i)
  case Nil
  then show ?case by simp
next
  case (Cons kv kvs)
  show ?case
  proof (cases i)
    case 0
    with Cons.prems have "fst kv \<notin> fst ` set kvs" by simp
    then have "map_of (rev kvs) (fst kv) = None"
      by (simp add: map_of_eq_None_iff)
    then show ?thesis using 0 by (cases kv) (simp add: map_add_def)
  next
    case (Suc j)
    with Cons.prems have "map_of (rev kvs) (fst (kvs ! j)) = Some (snd (kvs ! j))"
      by (intro Cons.IH) simp_all
    then show ?thesis using Suc by (simp add: map_add_def)
  qed
qed

subsection \<open>The extraction loop\<close>

lemma polygons_loop_fold:
  "\<forall>(i, c) \<in> set ics. i < shape_last msk \<Longrightarrow>
   polygons_loop env msk eps xs ys ics pbt =
     Inr (fold (\<lambda>(k, v). AList.update k v) (channel_entries env msk eps xs ys ics) pbt)"
proof (induction ics arbitrary: pbt)
  case Nil
  then show ?case by (simp add: channel_entries_def)
next
  case (Cons ic ics)
  obtain i c where ic: "ic = (i, c)" by (cases ic)
  from Cons.prems have "i < shape_last msk" and rest: "\<forall>(i, c) \<in> set ics. i < shape_last msk"
    by (auto simp: ic)
  then show ?case
    using Cons.IH [OF rest] by (simp add: ic channel_def channel_entries_def)
qed

lemma get_polygons_eq:
  assumes "get_scalers env im_id (shape_hw msk) = (x_scaler, y_scaler)"
  shows "get_polygons env im_id msk eps classes =
     (if x_scaler = 0 \<or> y_scaler = 0 then Inl ZeroDivisionError
      else if length classes \<noteq> shape_last msk then Inl AssertionError
      else Inr (fold (\<lambda>(k, v). AList.update k v)
             (channel_entries env msk eps (1 / x_scaler) (1 / y_scaler) (enumerate 0 classes)) []))"
proof -
  have "length classes = shape_last msk \<Longrightarrow> \<forall>(i, c) \<in> set (enumerate 0 classes). i < shape_last msk"
    by (auto simp: in_set_enumerate_eq)
  then show ?thesis
    using assms by (auto simp: get_polygons_def Let_def polygons_loop_fold)
qed

subsection \<open>The per-image task\<close>

lemma get_poly_data_cached:
  assumes "store im_id = Some cached"
  shows "get_poly_data env store classes threshold epsilon im_id =
     (case get_polygons env im_id (greater_than env cached threshold) epsilon classes of
        Inl e \<Rightarrow> Inl e
      | Inr poly_by_type \<Rightarrow>
          (case map_of (get_wkt_data env) im_id of
             Some (entry # entries) \<Rightarrow>
               (case log_jaccard env im_id poly_by_type (entry # entries)
                       (greater_than env cached threshold) classes threshold of
                  Inl e \<Rightarrow> Inl e
                | Inr logged \<Rightarrow> train_rows im_id (entry # entries) classes)
           | _ \<Rightarrow> Inr (predicted_rows env im_id poly_by_type)))"
  using assms by (simp add: get_poly_data_def Let_def)

lemma shape_greater_than [simp]:
  "shape_hw (greater_than env a t) = shape_hw a" "shape_last (greater_than env a t) = shape_last a"
  by (simp_all add: greater_than_def shape_hw_def shape_last_def)

lemma example_get_polygons:
  "get_polygons example_env im_id (greater_than example_env example_mask (5 / 8)) 5 [0, 1] =
     Inr [(1, [Polygon [(0, 0), (1, 0), (1, 1), (0, 1), (0, 0)] []]), (2, [])]"
  by (simp add: get_polygons_def example_env_def example_mask_def greater_than_def shape_hw_def
      shape_last_def channel_def scale_def affine_transform_def map_points_def enumerate_eq_zip upt_rec)

lemma map_fst_channel_entries:
  "map fst (channel_entries env msk eps xs ys (enumerate n classes)) = map (\<lambda>cls. cls + 1) classes"
proof -
  have "map fst (channel_entries env msk eps xs ys ics) = map (\<lambda>cls. cls + 1) (map snd ics)" for ics
    by (induction ics) (auto simp: channel_entries_def)
  then have "map fst (channel_entries env msk eps xs ys (enumerate n classes)) =
      map (\<lambda>cls. cls + 1) (map snd (enumerate n classes))" .
  then show ?thesis by (simp only: map_snd_enumerate)
qed

lemma length_channel_entries:
  "length (channel_entries env msk eps xs ys ics) = length ics"
  by (simp add: channel_entries_def)

lemma nth_channel_entries:
  assumes "i < length classes" and "length classes = shape_last msk"
  shows "\<exists>cls_mask. channel msk i = Inr cls_mask
           \<and> channel_entries env msk eps xs ys (enumerate 0 classes) ! i =
               (classes ! i + 1, scale (mask_to_polygons env cls_mask eps) xs ys (0, 0))"
  using assms by (simp add: channel_entries_def channel_def nth_enumerate_eq)

lemma get_polygons_Inr:
  assumes "get_polygons env im_id msk eps classes = Inr poly_by_type"
    and "get_scalers env im_id (shape_hw msk) = (x_scaler, y_scaler)"
  shows "x_scaler \<noteq> 0" and "y_scaler \<noteq> 0" and "length classes = shape_last msk"
    and "poly_by_type = fold (\<lambda>(k, v). AList.update k v)
           (channel_entries env msk eps (1 / x_scaler) (1 / y_scaler) (enumerate 0 classes)) []"
  using assms(1) unfolding get_polygons_eq [OF assms(2)]
  by (auto split: if_splits)

lemma get_polygons_keys:
  assumes "get_polygons env im_id msk eps classes = Inr poly_by_type"
  shows "fst ` set poly_by_type = (\<lambda>cls. cls + 1) ` set classes" and "distinct (map fst poly_by_type)"
proof -
  obtain x_scaler y_scaler where sc: "get_scalers env im_id (shape_hw msk) = (x_scaler, y_scaler)"
    by (cases "get_scalers env im_id (shape_hw msk)")
  note pbt = get_polygons_Inr(4) [OF assms sc]
  have "fst ` set poly_by_type =
          set (map fst (channel_entries env msk eps (1 / x_scaler) (1 / y_scaler) (enumerate 0 classes)))"
    unfolding pbt by (simp add: keys_fold_update)
  then show "fst ` set poly_by_type = (\<lambda>cls. cls + 1) ` set classes"
    by (simp add: map_fst_channel_entries)
  show "distinct (map fst poly_by_type)"
    unfolding pbt by (rule distinct_fold_update) simp
qed

lemma get_polygons_entry:
  assumes "get_polygons env im_id msk eps classes = Inr poly_by_type"
    and "get_scalers env im_id (shape_hw msk) = (x_scaler, y_scaler)"
    and "(poly_type, polygons) \<in> set poly_by_type"
  shows "\<exists>cls_idx<length classes. \<exists>cls_mask. channel msk cls_idx = Inr cls_mask
           \<and> poly_type = classes ! cls_idx + 1
           \<and> polygons = scale (mask_to_polygons env cls_mask eps) (1 / x_scaler) (1 / y_scaler) (0, 0)"
proof -
  let ?entries = "channel_entries env msk eps (1 / x_scaler) (1 / y_scaler) (enumerate 0 classes)"
  note r = get_polygons_Inr [OF assms(1,2)]
  from assms(3) have "(poly_type, polygons) \<in> set ?entries"
    using set_fold_update [of ?entries "[]"] unfolding r(4) by auto
  then obtain i where i: "i < length classes" and at: "?entries ! i = (poly_type, polygons)"
    by (auto simp: in_set_conv_nth length_channel_entries)
  from nth_channel_entries [OF i r(3), of env eps "1 / x_scaler" "1 / y_scaler"] at i
  show ?thesis by auto
qed

lemma get_polygons_lookup:
  assumes "get_polygons env im_id msk eps classes = Inr poly_by_type"
    and "get_scalers env im_id (shape_hw msk) = (x_scaler, y_scaler)"
    and "i < length classes" and "classes ! i \<notin> set (drop (Suc i) classes)"
  shows "\<exists>cls_mask. channel msk i = Inr cls_mask
           \<and> map_of poly_by_type (classes ! i + 1) =
               Some (scale (mask_to_polygons env cls_mask eps) (1 / x_scaler) (1 / y_scaler) (0, 0))"
proof -
  let ?entries = "channel_entries env msk eps (1 / x_scaler) (1 / y_scaler) (enumerate 0 classes)"
  note r = get_polygons_Inr [OF assms(1,2)]
  from nth_channel_entries [OF assms(3) r(3), of env eps "1 / x_scaler" "1 / y_scaler"]
  obtain cls_mask where ch: "channel msk i = Inr cls_mask"
    and at: "?entries ! i =
       (classes ! i + 1, scale (mask_to_polygons env cls_mask eps) (1 / x_scaler) (1 / y_scaler) (0, 0))"
    by blast
  have "fst ` set (drop (Suc i) ?entries) = set (drop (Suc i) (map fst ?entries))"
    by (simp add: drop_map)
  also have "\<dots> = (\<lambda>cls. cls + 1) ` set (drop (Suc i) classes)"
    by (simp add: map_fst_channel_entries drop_map)
  finally have "fst (?entries ! i) \<notin> fst ` set (drop (Suc i) ?entries)"
    using assms(4) at by auto
  moreover have "i < length ?entries"
    using assms(3) by (simp add: length_channel_entries)
  ultimately have "map_of (rev ?entries) (fst (?entries ! i)) = Some (snd (?entries ! i))"
    by (rule map_of_rev_last [rotated])
  then have "map_of poly_by_type (classes ! i + 1) =
      Some (scale (mask_to_polygons env cls_mask eps) (1 / x_scaler) (1 / y_scaler) (0, 0))"
    unfolding r(4) by (simp add: map_of_fold_update at)
  with ch show ?thesis by blast
qed

subsection \<open>Comprehensions\<close>

lemma collect_Inr: "collect f xs = Inr ys \<Longrightarrow> list_all2 (\<lambda>x y. f x = Inr y) xs ys"
  by (induction xs arbitrary: ys) (auto split: sum.splits)

lemma collect_total: "\<forall>x\<in>set xs. \<exists>y. f x = Inr y \<Longrightarrow> \<exists>ys. collect f xs = Inr ys"
  by (induction xs) (auto split: sum.splits)

lemma train_rows_Inr:
  assumes "train_rows im_id train_polygons classes = Inr rows"
  shows "list_all2 (\<lambda>cls row. \<exists>wkt. map_of train_polygons (cls + 1) = Some wkt
                      \<and> row = (im_id, str_int (cls + 1), wkt)) classes rows"
proof -
  from assms have "list_all2 (\<lambda>cls row.
        (case getitem train_polygons (cls + 1) of
           Inl e \<Rightarrow> Inl e
         | Inr wkt \<Rightarrow> Inr (im_id, str_int (cls + 1), wkt)) = Inr row) classes rows"
    unfolding train_rows_def by (rule collect_Inr)
  then show ?thesis
    by (rule list_all2_mono) (auto simp: getitem_def split: sum.splits option.splits)
qed

lemma train_rows_total:
  assumes "\<forall>cls\<in>set classes. map_of train_polygons (cls + 1) \<noteq> None"
  shows "\<exists>rows. train_rows im_id train_polygons classes = Inr rows"
  unfolding train_rows_def
  by (rule collect_total) (use assms in \<open>auto simp: getitem_def split: option.splits\<close>)

lemma log_jaccard_round_key:
  "log_jaccard_round env im_id poly_by_type train_polygons msk threshold (cls_idx, cls) = Inr logged
     \<Longrightarrow> map_of train_polygons (cls + 1) \<noteq> None"
  by (auto simp: log_jaccard_round_def Let_def getitem_def split: sum.splits option.splits)

lemma log_jaccard_keys:
  assumes "log_jaccard env im_id poly_by_type train_polygons msk classes threshold = Inr logged"
  shows "\<forall>cls\<in>set classes. map_of train_polygons (cls + 1) \<noteq> None"
proof
  fix cls assume "cls \<in> set classes"
  then obtain i where i: "i < length classes" and cls: "classes ! i = cls"
    by (auto simp: in_set_conv_nth)
  from assms have all: "list_all2 (\<lambda>ic y.
       log_jaccard_round env im_id poly_by_type train_polygons msk threshold ic = Inr y)
       (enumerate 0 classes) logged"
    unfolding log_jaccard_def by (rule collect_Inr)
  from list_all2_nthD [OF all, of i] i cls
  have "log_jaccard_round env im_id poly_by_type train_polygons msk threshold (i, cls) = Inr (logged ! i)"
    by (simp add: nth_enumerate_eq)
  then show "map_of train_polygons (cls + 1) \<noteq> None"
    by (rule log_jaccard_round_key)
qed

subsection \<open>Rows of the prediction branch\<close>

lemma predicted_rows_types:
  "map (fst \<circ> snd) (predicted_rows env im_id poly_by_type) =
     map str_int (map fst (sort_key fst poly_by_type))"
  by (simp add: predicted_rows_def case_prod_beta comp_def)

lemma predicted_rows_length: "length (predicted_rows env im_id poly_by_type) = length poly_by_type"
  by (simp add: predicted_rows_def)

lemma sorted_keys_strict:
  assumes "distinct (map fst poly_by_type)"
  shows "sorted_wrt (<) (map fst (sort_key fst poly_by_type))"
proof -
  have "distinct (map fst (sort_key fst poly_by_type))"
    using assms by (simp add: distinct_map)
  then show ?thesis
    by (simp add: strict_sorted_iff)
qed

lemma ascending_poly_types:
  "sorted_wrt (<) (map (\<lambda>cls::int. cls + 1) classes) = sorted_wrt (<) classes"
  by (induction classes) auto

lemma sorted_keys_of_ascending_classes:
  assumes "get_polygons env im_id msk eps classes = Inr poly_by_type" and "sorted_wrt (<) classes"
  shows "map fst (sort_key fst poly_by_type) = map (\<lambda>cls. cls + 1) classes"
proof (rule sorted_distinct_set_unique)
  show "sorted (map fst (sort_key fst poly_by_type))" by (rule sorted_sort_key)
  show "distinct (map fst (sort_key fst poly_by_type))"
    using get_polygons_keys(2) [OF assms(1)] by (simp add: distinct_map)
  from assms(2) have "sorted_wrt (<) (map (\<lambda>cls. cls + 1) classes)"
    by (simp only: ascending_poly_types)
  then show "sorted (map (\<lambda>cls. cls + 1) classes)" "distinct (map (\<lambda>cls. cls + 1) classes)"
    by (simp_all only: strict_sorted_iff)
  show "set (map fst (sort_key fst poly_by_type)) = set (map (\<lambda>cls. cls + 1) classes)"
    using get_polygons_keys(1) [OF assms(1)] by simp
qed

lemma get_polygons_length:
  assumes "get_polygons env im_id msk eps classes = Inr poly_by_type" and "distinct classes"
  shows "length poly_by_type = length classes"
proof -
  have "length poly_by_type = length (map fst poly_by_type)" by simp
  also have "\<dots> = card (set (map fst poly_by_type))"
    using get_polygons_keys(2) [OF assms(1)] by (simp only: distinct_card)
  also have "\<dots> = card ((\<lambda>cls. cls + 1) ` set classes)"
    using get_polygons_keys(1) [OF assms(1)] by simp
  also have "\<dots> = card (set classes)"
    by (rule card_image) (simp add: inj_on_def)
  also have "\<dots> = length classes"
    using assms(2) by (rule distinct_card)
  finally show ?thesis .
qed

subsection \<open>The concrete run\<close>

lemma example_get_poly_data_train:
  "get_poly_data example_env example_store [0, 1] (5 / 8) 5 ''6100_1_3'' =
     Inr [(''6100_1_3'', ''1'', ''MULTIPOLYGON (((0 0, 1 0, 1 1, 0 0)))''),
          (''6100_1_3'', ''2'', ''MULTIPOLYGON EMPTY'')]"
  by (simp add: get_poly_data_def example_store_def example_get_polygons)
     (simp add: example_env_def log_jaccard_def log_jaccard_round_def train_rows_def getitem_def
        divide_float_def channel_def shape_last_def greater_than_def example_mask_def
        enumerate_eq_zip upt_rec str_int_small)

lemma example_get_poly_data_predicted:
  "get_poly_data example_env example_store [0, 1] (5 / 8) 5 ''6020_0_0'' =
     Inr [(''6020_0_0'', ''1'', ''MULTIPOLYGON (...)''), (''6020_0_0'', ''2'', ''MULTIPOLYGON EMPTY'')]"
  by (simp add: get_poly_data_def example_store_def example_get_polygons)
     (simp add: example_env_def predicted_rows_def str_int_small)

lemma example_get_polygons_swapped:
  "get_polygons example_env im_id (greater_than example_env example_mask (5 / 8)) 5 [1, 0] =
     Inr [(2, [Polygon [(0, 0), (1, 0), (1, 1), (0, 1), (0, 0)] []]), (1, [])]"
  by (simp add: get_polygons_def example_env_def example_mask_def greater_than_def shape_hw_def
      shape_last_def channel_def scale_def affine_transform_def map_points_def enumerate_eq_zip upt_rec)

lemma example_get_polygons_repeated:
  "get_polygons example_env im_id (greater_than example_env example_mask (5 / 8)) 5 [0, 0] = Inr [(1, [])]"
  by (simp add: get_polygons_def example_env_def example_mask_def greater_than_def shape_hw_def
      shape_last_def channel_def scale_def affine_transform_def map_points_def enumerate_eq_zip upt_rec)

lemma example_get_poly_data_swapped:
  "get_poly_data example_env example_store [1, 0] (5 / 8) 5 ''6100_1_3'' =
     Inr [(''6100_1_3'', ''2'', ''MULTIPOLYGON EMPTY''),
          (''6100_1_3'', ''1'', ''MULTIPOLYGON (((0 0, 1 0, 1 1, 0 0)))'')]"
  by (simp add: get_poly_data_def example_store_def example_get_polygons_swapped)
     (simp add: example_env_def log_jaccard_def log_jaccard_round_def train_rows_def getitem_def
        divide_float_def channel_def shape_last_def greater_than_def example_mask_def
        enumerate_eq_zip upt_rec str_int_small)

lemma example_get_poly_data_repeated:
  "get_poly_data example_env example_store [0, 0] (5 / 8) 5 ''6020_0_0'' =
     Inr [(''6020_0_0'', ''1'', ''MULTIPOLYGON EMPTY'')]"
  by (simp add: get_poly_data_def example_store_def example_get_polygons_repeated)
     (simp add: example_env_def predicted_rows_def str_int_small)

lemma position_is_value_iff:
  "(\<forall>j<length classes. classes ! j + 1 = int j + 1) \<longleftrightarrow> classes = map int [0..<length classes]"
proof
  assume "\<forall>j<length classes. classes ! j + 1 = int j + 1"
  then have "\<And>j. j < length classes \<Longrightarrow> classes ! j = map int [0..<length classes] ! j"
    by simp
  then show "classes = map int [0..<length classes]"
    by (intro nth_equalityI) simp_all
next
  assume eq: "classes = map int [0..<length classes]"
  show "\<forall>j<length classes. classes ! j + 1 = int j + 1"
  proof (intro allI impI)
    fix j assume j: "j < length classes"
    from arg_cong [OF eq, of "\<lambda>xs. xs ! j"] j show "classes ! j + 1 = int j + 1"
      by simp
  qed
qed

lemma train_rows_types:
  assumes "train_rows im_id train_polygons classes = Inr rows"
  shows "length rows = length classes"
    and "map (fst \<circ> snd) rows = map (\<lambda>cls. str_int (cls + 1)) classes"
proof -
  note all = train_rows_Inr [OF assms]
  show "length rows = length classes"
    using all by (simp add: list_all2_lengthD)
  show "map (fst \<circ> snd) rows = map (\<lambda>cls. str_int (cls + 1)) classes"
    using all by (induction classes rows rule: list_all2_induct) auto
qed

lemma get_poly_data_Inr:
  assumes "store im_id = Some cached"
    and "get_poly_data env store classes threshold epsilon im_id = Inr rows"
  obtains poly_by_type where
    "get_polygons env im_id (greater_than env cached threshold) epsilon classes = Inr poly_by_type"
    and "(\<exists>entry entries. map_of (get_wkt_data env) im_id = Some (entry # entries)
            \<and> train_rows im_id (entry # entries) classes = Inr rows)
         \<or> ((\<nexists>entry entries. map_of (get_wkt_data env) im_id = Some (entry # entries))
            \<and> rows = predicted_rows env im_id poly_by_type)"
  using assms(2) unfolding get_poly_data_cached [where store = store, OF assms(1)]
  by (auto split: sum.splits option.splits list.splits)

lemma get_poly_data_predicted:
  assumes "store im_id = Some cached"
    and "\<nexists>entry entries. map_of (get_wkt_data env) im_id = Some (entry # entries)"
    and "get_polygons env im_id (greater_than env cached threshold) epsilon classes = Inr poly_by_type"
  shows "get_poly_data env store classes threshold epsilon im_id =
           Inr (predicted_rows env im_id poly_by_type)"
  using assms(2,3) unfolding get_poly_data_cached [where store = store, OF assms(1)]
  by (auto split: sum.splits option.splits list.splits)

subsection \<open>The targets\<close>

lemma split_char_not_Nil: "split_char sep s \<noteq> []"
  by (induction s) (auto split: list.splits)

lemma only_ids_empty_iff: "only_ids only = {} \<longleftrightarrow> only = None \<or> only = Some []"
  by (auto simp: only_ids_def split_char_not_Nil split: option.splits)

lemma finite_only_ids: "finite (only_ids only)"
  by (simp add: only_ids_def split: option.splits)

lemma image_ids_of_set:
  "image_ids_of reader = Inr image_ids \<Longrightarrow>
     set image_ids = {im_id. \<exists>geom. [im_id, ''1'', geom] \<in> set reader}"
proof (induction reader arbitrary: image_ids)
  case Nil
  then show ?case by simp
next
  case (Cons row reader)
  from Cons.prems obtain im_id cls geom ids where row: "row = [im_id, cls, geom]"
    and ids: "image_ids_of reader = Inr ids"
    and res: "image_ids = (if cls = ''1'' then im_id # ids else ids)"
    by (auto split: list.splits sum.splits)
  from Cons.IH [OF ids] show ?case
    unfolding res by (auto simp: row)
qed

lemma finite_to_predict: "finite (to_predict env train_only (only_ids only) image_ids)"
  by (simp add: to_predict_def Let_def finite_only_ids)

subsection \<open>The mask loop\<close>

lemma predict_masks_keeps:
  assumes "predict_masks env ids st = (err, st')" and "files st im_id = Some cached"
  shows "files st' im_id = Some cached
       \<and> count_list (predicted st') im_id = count_list (predicted st) im_id"
  using assms
proof (induction ids arbitrary: st)
  case Nil
  then show ?case by simp
next
  case (Cons a ids)
  show ?case
  proof (cases "files st a \<noteq> None")
    case True
    with Cons.prems have "predict_masks env ids st = (err, st')" by simp
    from Cons.IH [OF this Cons.prems(2)] show ?thesis .
  next
    case False
    with Cons.prems(2) have neq: "a \<noteq> im_id" by auto
    let ?msk = "astype env (image_prediction env a)"
    let ?st1 = "st\<lparr>predicted := predicted st @ [a]\<rparr>"
    show ?thesis
    proof (cases "shape_hw ?msk \<noteq> image_data_shape env a")
      case True
      with False Cons.prems(1) have "st' = ?st1" by (simp add: Let_def)
      with neq Cons.prems(2) show ?thesis by simp
    next
      case ok: False
      let ?st2 = "?st1\<lparr>files := (files ?st1)(a \<mapsto> ?msk)\<rparr>"
      from False ok Cons.prems(1) have "predict_masks env ids ?st2 = (err, st')"
        by (simp add: Let_def)
      moreover have "files ?st2 im_id = Some cached"
        using neq Cons.prems(2) by simp
      ultimately have "files st' im_id = Some cached
         \<and> count_list (predicted st') im_id = count_list (predicted ?st2) im_id"
        by (rule Cons.IH)
      with neq show ?thesis by simp
    qed
  qed
qed

lemma predict_masks_cached_stays:
  assumes "predict_masks env ids st = (err, st')" and "files st im_id \<noteq> None"
  shows "files st' im_id \<noteq> None"
  using predict_masks_keeps [OF assms(1)] assms(2) by fastforce

lemma predict_masks_all_cached:
  "\<forall>im_id\<in>set ids. files st im_id \<noteq> None \<Longrightarrow> predict_masks env ids st = (None, st)"
  by (induction ids) simp_all

lemma predict_masks_success:
  assumes "predict_masks env ids st = (None, st')"
  shows "\<forall>im_id\<in>set ids. files st' im_id \<noteq> None"
  using assms
proof (induction ids arbitrary: st)
  case Nil
  then show ?case by simp
next
  case (Cons a ids)
  show ?case
  proof (cases "files st a \<noteq> None")
    case True
    with Cons.prems have run: "predict_masks env ids st = (None, st')" by simp
    from Cons.IH [OF run] predict_masks_cached_stays [OF run True] show ?thesis by simp
  next
    case False
    let ?msk = "astype env (image_prediction env a)"
    let ?st2 = "st\<lparr>predicted := predicted st @ [a], files := (files st)(a \<mapsto> ?msk)\<rparr>"
    from False Cons.prems have run: "predict_masks env ids ?st2 = (None, st')"
      by (simp add: Let_def split: if_splits)
    have "files ?st2 a \<noteq> None" by simp
    from Cons.IH [OF run] predict_masks_cached_stays [OF run this] show ?thesis by simp
  qed
qed

lemma main_masks_cases:
  "main_masks env args sample_submission stored = (err, st) \<Longrightarrow>
     (err \<noteq> None \<and> st = \<lparr>files = stored, predicted = []\<rparr>)
     \<or> (\<exists>header reader image_ids. sample_submission = header # reader
          \<and> image_ids_of reader = Inr image_ids \<and> endswith (args_output args) ''.csv''
          \<and> predict_masks env
               (sorted_list_of_set
                  (to_predict env (args_train_only args) (only_ids (args_only args)) image_ids))
               \<lparr>files = stored, predicted = []\<rparr> = (err, st))"
  by (auto simp: main_masks_def Let_def split: list.splits sum.splits if_splits)

subsection \<open>The concrete mask phase\<close>

lemma example_only_ids: "only_ids (Some ''6100_1_3,6030_3_3'') = {''6100_1_3'', ''6030_3_3''}"
  by (simp add: only_ids_def)

lemma example_image_ids:
  "image_ids_of (tl example_submission) = Inr [''6020_0_0'', ''6040_2_2'']"
  by (simp add: example_submission_def)

lemma example_sorted_targets:
  "sorted_list_of_set {''6100_1_3'', ''6030_3_3''} = [''6030_3_3'', ''6100_1_3'']"
proof -
  have "sorted_list_of_set (set [''6100_1_3'', ''6030_3_3'']) = sort (remdups [''6100_1_3'', ''6030_3_3''])"
    by (rule sorted_list_of_set_sort_remdups)
  also have "\<dots> = [''6030_3_3'', ''6100_1_3'']"
    by (simp add: less_eq_char_def less_char_def)
  finally show ?thesis by simp
qed

lemma example_main_masks:
  "main_masks example_env example_args example_submission example_store =
     (None, \<lparr>files = example_store(''6030_3_3'' \<mapsto> astype example_env example_mask),
             predicted = [''6030_3_3'']\<rparr>)"
proof -
  have "to_predict example_env False {''6100_1_3'', ''6030_3_3''} [''6020_0_0'', ''6040_2_2'']
          = {''6100_1_3'', ''6030_3_3''}"
    by (simp add: to_predict_def)
  moreover have "image_ids_of [[''6020_0_0'', ''1'', ''MULTIPOLYGON EMPTY''],
      [''6020_0_0'', ''2'', ''MULTIPOLYGON EMPTY''],
      [''6040_2_2'', ''1'', ''MULTIPOLYGON EMPTY'']] = Inr [''6020_0_0'', ''6040_2_2'']"
    by simp
  moreover have "shape_hw (astype example_env example_mask) = image_data_shape example_env ''6030_3_3''"
    by (simp add: astype_def example_env_def example_mask_def shape_hw_def)
  moreover have "example_store ''6030_3_3'' = None" "example_store ''6100_1_3'' \<noteq> None"
    by (simp_all add: example_store_def)
  moreover have "image_prediction example_env ''6030_3_3'' = example_mask"
    by (simp add: example_env_def)
  ultimately show ?thesis
    by (simp add: main_masks_def example_args_def example_submission_def example_only_ids
        example_sorted_targets endswith_def Let_def)
qed

subsection \<open>The rows of a cached image, by branch\<close>

text \<open>
  With reference polygons the rows follow the class list; without them they follow the
  sorted keys of the dict. The two agree for a strictly ascending class list.
\<close>

lemma cached_mask_rows_by_branch:
  assumes "store im_id = Some cached"
  shows "(\<forall>rows. get_poly_data env store classes threshold epsilon im_id = Inr rows \<longrightarrow>
            ((\<exists>entry entries. map_of (get_wkt_data env) im_id = Some (entry # entries)) \<longrightarrow>
               length rows = length classes
               \<and> map (fst \<circ> snd) rows = map (\<lambda>cls. str_int (cls + 1)) classes)
          \<and> ((\<nexists>entry entries. map_of (get_wkt_data env) im_id = Some (entry # entries)) \<longrightarrow>
               (\<exists>poly_types. map (fst \<circ> snd) rows = map str_int poly_types
                  \<and> sorted_wrt (<) poly_types
                  \<and> set poly_types = (\<lambda>cls. cls + 1) ` set classes)
               \<and> (distinct classes \<longrightarrow> length rows = length classes))
          \<and> (sorted_wrt (<) classes \<longrightarrow>
               length rows = length classes
               \<and> map (fst \<circ> snd) rows = map str_int (map (\<lambda>cls. cls + 1) classes)
               \<and> sorted_wrt (<) (map (\<lambda>cls. cls + 1) classes)))
       \<and> ((\<nexists>entry entries. map_of (get_wkt_data env) im_id = Some (entry # entries))
            \<and> fst (get_scalers env im_id (shape_hw cached)) \<noteq> 0
            \<and> snd (get_scalers env im_id (shape_hw cached)) \<noteq> 0
            \<and> length classes = shape_last cached
          \<longrightarrow> (\<exists>rows. get_poly_data env store classes threshold epsilon im_id = Inr rows))"
proof (intro conjI allI impI)
  fix rows
  assume run: "get_poly_data env store classes threshold epsilon im_id = Inr rows"
  from assms run obtain poly_by_type where
    ex: "get_polygons env im_id (greater_than env cached threshold) epsilon classes = Inr poly_by_type"
    and br: "(\<exists>entry entries. map_of (get_wkt_data env) im_id = Some (entry # entries)
            \<and> train_rows im_id (entry # entries) classes = Inr rows)
         \<or> ((\<nexists>entry entries. map_of (get_wkt_data env) im_id = Some (entry # entries))
            \<and> rows = predicted_rows env im_id poly_by_type)"
    by (rule get_poly_data_Inr)
  let ?types = "map fst (sort_key fst poly_by_type)"
  have types: "sorted_wrt (<) ?types" "set ?types = (\<lambda>cls. cls + 1) ` set classes"
    using get_polygons_keys [OF ex] by (simp_all add: sorted_keys_strict)
  {
    assume "\<exists>entry entries. map_of (get_wkt_data env) im_id = Some (entry # entries)"
    with br obtain tp where "train_rows im_id tp classes = Inr rows" by auto
    then show "length rows = length classes"
      and "map (fst \<circ> snd) rows = map (\<lambda>cls. str_int (cls + 1)) classes"
      by (rule train_rows_types)+
  }
  {
    assume none: "\<nexists>entry entries. map_of (get_wkt_data env) im_id = Some (entry # entries)"
    with br have rows: "rows = predicted_rows env im_id poly_by_type" by auto
    show "\<exists>poly_types. map (fst \<circ> snd) rows = map str_int poly_types
                  \<and> sorted_wrt (<) poly_types
                  \<and> set poly_types = (\<lambda>cls. cls + 1) ` set classes"
      using types unfolding rows predicted_rows_types by blast
    {
      assume "distinct classes"
      then show "length rows = length classes"
        unfolding rows predicted_rows_length by (rule get_polygons_length [OF ex])
    }
  }
  {
    assume asc: "sorted_wrt (<) classes"
    then have d: "distinct classes" by (simp add: strict_sorted_iff)
    show "sorted_wrt (<) (map (\<lambda>cls. cls + 1) classes)"
      using asc by (simp only: ascending_poly_types)
    from br show "length rows = length classes"
    proof
      assume "\<exists>entry entries. map_of (get_wkt_data env) im_id = Some (entry # entries)
            \<and> train_rows im_id (entry # entries) classes = Inr rows"
      then show ?thesis using train_rows_types(1) by blast
    next
      assume "(\<nexists>entry entries. map_of (get_wkt_data env) im_id = Some (entry # entries))
            \<and> rows = predicted_rows env im_id poly_by_type"
      then show ?thesis
        using get_polygons_length [OF ex d] by (simp add: predicted_rows_length)
    qed
    from br show "map (fst \<circ> snd) rows = map str_int (map (\<lambda>cls. cls + 1) classes)"
    proof
      assume "\<exists>entry entries. map_of (get_wkt_data env) im_id = Some (entry # entries)
            \<and> train_rows im_id (entry # entries) classes = Inr rows"
      then obtain tp where "train_rows im_id tp classes = Inr rows" by blast
      from train_rows_types(2) [OF this] show ?thesis by (simp add: comp_def)
    next
      assume "(\<nexists>entry entries. map_of (get_wkt_data env) im_id = Some (entry # entries))
            \<and> rows = predicted_rows env im_id poly_by_type"
      then show ?thesis
        using sorted_keys_of_ascending_classes [OF ex asc] by (simp add: predicted_rows_types)
    qed
  }
next
  assume ok: "(\<nexists>entry entries. map_of (get_wkt_data env) im_id = Some (entry # entries))
            \<and> fst (get_scalers env im_id (shape_hw cached)) \<noteq> 0
            \<and> snd (get_scalers env im_id (shape_hw cached)) \<noteq> 0
            \<and> length classes = shape_last cached"
  obtain x y where sc: "get_scalers env im_id (shape_hw (greater_than env cached threshold)) = (x, y)"
    by (cases "get_scalers env im_id (shape_hw (greater_than env cached threshold))")
  with ok have "x \<noteq> 0" "y \<noteq> 0" by simp_all
  with ok obtain poly_by_type where
    "get_polygons env im_id (greater_than env cached threshold) epsilon classes = Inr poly_by_type"
    by (simp add: get_polygons_eq [OF sc])
  from get_poly_data_predicted [where store = store, OF assms _ this] ok
  show "\<exists>rows. get_poly_data env store classes threshold epsilon im_id = Inr rows"
    by blast
qed

lemma example_get_poly_data_predicted_swapped:
  "get_poly_data example_env example_store [1, 0] (5 / 8) 5 ''6020_0_0'' =
     Inr [(''6020_0_0'', ''1'', ''MULTIPOLYGON EMPTY''), (''6020_0_0'', ''2'', ''MULTIPOLYGON (...)'')]"
  by (simp add: get_poly_data_def example_store_def example_get_polygons_swapped)
     (simp add: example_env_def predicted_rows_def str_int_small)

lemma example_get_poly_data_train_repeated:
  "get_poly_data example_env example_store [0, 0] (5 / 8) 5 ''6100_1_3'' =
     Inr [(''6100_1_3'', ''1'', ''MULTIPOLYGON (((0 0, 1 0, 1 1, 0 0)))''),
          (''6100_1_3'', ''1'', ''MULTIPOLYGON (((0 0, 1 0, 1 1, 0 0)))'')]"
  by (simp add: get_poly_data_def example_store_def example_get_polygons_repeated)
     (simp add: example_env_def log_jaccard_def log_jaccard_round_def train_rows_def getitem_def
        divide_float_def channel_def shape_last_def greater_than_def example_mask_def
        enumerate_eq_zip upt_rec str_int_small)

section \<open>The claims\<close>

text \<open>
  Claim C9. Thresholding is strict. For a stored probability that is a float16 number (the
  rounding leaves it as it is) and a rounding that is monotone: a pixel whose stored
  probability equals the threshold is background in the boolean mask, and a pixel that is
  foreground has a stored probability strictly greater than the threshold. The boolean
  mask has the shape of the cached one. The converse does not hold: the comparison is
  with the rounded threshold, so a probability above the threshold but not above its
  rounding is background.
\<close>

theorem threshold_is_strict:
  assumes "mono (astype_float16 env)"
    and "astype_float16 env (item a i j k) = item a i j k"
  shows "shape (greater_than env a threshold) = shape a
       \<and> (item a i j k = threshold \<longrightarrow> \<not> item (greater_than env a threshold) i j k)
       \<and> (item (greater_than env a threshold) i j k \<longrightarrow> threshold < item a i j k)"
proof (intro conjI impI)
  show "shape (greater_than env a threshold) = shape a"
    by (simp add: greater_than_def)
next
  assume "item a i j k = threshold"
  with assms(2) have "astype_float16 env threshold = item a i j k" by simp
  then show "\<not> item (greater_than env a threshold) i j k"
    by (simp add: greater_than_def)
next
  assume "item (greater_than env a threshold) i j k"
  then have above: "astype_float16 env threshold < item a i j k"
    by (simp add: greater_than_def)
  show "threshold < item a i j k"
  proof (rule ccontr)
    assume "\<not> threshold < item a i j k"
    then have "item a i j k \<le> threshold" by simp
    with assms(1) have "astype_float16 env (item a i j k) \<le> astype_float16 env threshold"
      by (rule monoD)
    with assms(2) above show False by simp
  qed
qed

theorem threshold_is_strict_witness:
  "mono (astype_float16 coarse_env)
   \<and> astype_float16 coarse_env (item example_mask 0 0 1) = item example_mask 0 0 1
   \<and> astype_float16 coarse_env (item example_mask 0 0 0) = item example_mask 0 0 0
   \<and> item example_mask 0 0 1 = 1 / 2
   \<and> \<not> item (greater_than coarse_env example_mask (1 / 2)) 0 0 1
   \<and> item (greater_than coarse_env example_mask (3 / 10)) 0 0 0
   \<and> 3 / 10 < item example_mask 0 0 0
   \<and> 2 / 5 < item example_mask 0 0 1
   \<and> \<not> item (greater_than coarse_env example_mask (2 / 5)) 0 0 1"
proof -
  have m: "mono (astype_float16 coarse_env)"
    by (rule mono_coarse_env)
  have f1: "astype_float16 coarse_env (item example_mask 0 0 1) = item example_mask 0 0 1"
    and f0: "astype_float16 coarse_env (item example_mask 0 0 0) = item example_mask 0 0 0"
    by (simp_all add: coarse_env_def example_env_def example_mask_def)
  have fg: "item (greater_than coarse_env example_mask (3 / 10)) 0 0 0"
    and bg: "\<not> item (greater_than coarse_env example_mask (2 / 5)) 0 0 1"
    by (simp_all add: greater_than_def coarse_env_def example_env_def example_mask_def)
  from threshold_is_strict [OF m f1, of "1 / 2"] threshold_is_strict [OF m f0, of "3 / 10"] fg
  have "\<not> item (greater_than coarse_env example_mask (1 / 2)) 0 0 1"
    and "3 / 10 < item example_mask 0 0 0"
    by (simp_all add: example_mask_def)
  with m f1 f0 fg bg show ?thesis
    by (simp add: example_mask_def)
qed

text \<open>
  Claim C2. For an image whose cached mask is absent the task returns, without failing,
  exactly one row per entry of the class list, in the order of the list: the row at
  position \<open>i\<close> carries the image, \<open>str (classes[i] + 1)\<close> and the literal
  \<^verbatim>\<open>MULTIPOLYGON EMPTY\<close>.
\<close>

theorem absent_mask_rows:
  assumes "store im_id = None"
  shows "\<exists>rows. get_poly_data env store classes threshold epsilon im_id = Inr rows
           \<and> length rows = length classes
           \<and> (\<forall>i<length classes.
                 rows ! i = (im_id, str_int (classes ! i + 1), ''MULTIPOLYGON EMPTY''))"
  using assms by (simp add: get_poly_data_def empty_rows_def)

theorem absent_mask_rows_witness:
  "example_store ''6030_3_3'' = None
   \<and> (\<exists>rows. get_poly_data example_env example_store [0, 1] (1 / 2) 5 ''6030_3_3'' = Inr rows
         \<and> length rows = 2
         \<and> rows ! 0 = (''6030_3_3'', ''1'', ''MULTIPOLYGON EMPTY'')
         \<and> rows ! 1 = (''6030_3_3'', ''2'', ''MULTIPOLYGON EMPTY''))"
proof -
  have absent: "example_store ''6030_3_3'' = None"
    by (simp add: example_store_def)
  from absent absent_mask_rows [where store = example_store and im_id = "''6030_3_3''"
      and env = example_env and classes = "[0, 1]" and threshold = "1 / 2" and epsilon = 5]
  obtain rows where rows: "get_poly_data example_env example_store [0, 1] (1 / 2) 5 ''6030_3_3'' = Inr rows"
    and len: "length rows = length [0::int, 1]"
    and each: "\<forall>i<length [0::int, 1].
                 rows ! i = (''6030_3_3'', str_int ([0, 1] ! i + 1), ''MULTIPOLYGON EMPTY'')"
    by blast
  have "rows ! 0 = (''6030_3_3'', ''1'', ''MULTIPOLYGON EMPTY'')"
    using each [rule_format, of 0] by (simp add: str_int_small)
  moreover have "rows ! 1 = (''6030_3_3'', ''2'', ''MULTIPOLYGON EMPTY'')"
    using each [rule_format, of 1] by (simp add: str_int_small)
  ultimately show ?thesis
    using absent rows len by simp
qed

text \<open>
  Claim C5. Once the reciprocals of the scaler factors are taken (both factors nonzero),
  \<^verbatim>\<open>get_polygons\<close> fails with AssertionError exactly when the length of the class
  list differs from the last dimension of the mask. When they are equal it returns a
  dict (the assertion does not fire and no channel read is out of range). When they
  differ, \<^verbatim>\<open>get_poly_data\<close> on that cached mask fails with the same AssertionError.
\<close>

theorem class_count_assertion:
  assumes "get_scalers env im_id (shape_hw msk) = (x_scaler, y_scaler)"
    and "x_scaler \<noteq> 0" and "y_scaler \<noteq> 0"
  shows "(get_polygons env im_id msk epsilon classes = Inl AssertionError
            \<longleftrightarrow> length classes \<noteq> shape_last msk)
       \<and> (length classes = shape_last msk \<longrightarrow>
            (\<exists>poly_by_type. get_polygons env im_id msk epsilon classes = Inr poly_by_type))
       \<and> (store im_id = Some cached \<and> msk = greater_than env cached threshold
              \<and> length classes \<noteq> shape_last msk
            \<longrightarrow> get_poly_data env store classes threshold epsilon im_id = Inl AssertionError)"
  using assms by (auto simp: get_polygons_eq get_poly_data_cached)

theorem class_count_assertion_witness:
  "get_scalers example_env ''6100_1_3'' (shape_hw (greater_than example_env example_mask (5 / 8))) = (2, 4)
   \<and> (2::real) \<noteq> 0 \<and> (4::real) \<noteq> 0
   \<and> length [0::int] \<noteq> shape_last (greater_than example_env example_mask (5 / 8))
   \<and> get_polygons example_env ''6100_1_3'' (greater_than example_env example_mask (5 / 8)) 5 [0] = Inl AssertionError
   \<and> example_store ''6100_1_3'' = Some example_mask
   \<and> get_poly_data example_env example_store [0] (5 / 8) 5 ''6100_1_3'' = Inl AssertionError
   \<and> length [0::int, 1] = shape_last (greater_than example_env example_mask (5 / 8))
   \<and> (\<exists>poly_by_type. get_polygons example_env ''6100_1_3'' (greater_than example_env example_mask (5 / 8)) 5 [0, 1]
          = Inr poly_by_type)"
proof -
  have sc: "get_scalers example_env ''6100_1_3'' (shape_hw (greater_than example_env example_mask (5 / 8))) = (2, 4)"
    by (simp add: example_env_def)
  have n: "shape_last (greater_than example_env example_mask (5 / 8)) = 2"
    by (simp add: example_mask_def shape_last_def greater_than_def)
  have st: "example_store ''6100_1_3'' = Some example_mask"
    by (simp add: example_store_def)
  show ?thesis
    using class_count_assertion [OF sc, where epsilon = 5 and classes = "[0]"
        and store = example_store and cached = example_mask and threshold = "5 / 8"]
      class_count_assertion [OF sc, where epsilon = 5 and classes = "[0, 1]"
        and store = example_store and cached = example_mask and threshold = "5 / 8"] sc n st
    by simp
qed

text \<open>
  Claim C1. Every polygon collection that \<^verbatim>\<open>get_polygons\<close> returns is the pixel-space
  collection of one mask channel scaled about the origin \<open>(0, 0)\<close> by the reciprocals of the
  image's scaler factors: each vertex \<open>(x, y)\<close> becomes \<open>(x / x_scaler, y / y_scaler)\<close>,
  it is divided by the factors and not multiplied. The labels returned are exactly the
  class values plus one.
\<close>

theorem extraction_divides_by_scaler:
  assumes "get_polygons env im_id msk epsilon classes = Inr poly_by_type"
    and "get_scalers env im_id (shape_hw msk) = (x_scaler, y_scaler)"
  shows "fst ` set poly_by_type = (\<lambda>cls. cls + 1) ` set classes
       \<and> (\<forall>(poly_type, polygons) \<in> set poly_by_type.
            \<exists>cls_idx<length classes. \<exists>cls_mask.
              channel msk cls_idx = Inr cls_mask \<and> poly_type = classes ! cls_idx + 1
              \<and> polygons = scale (mask_to_polygons env cls_mask epsilon)
                             (1 / x_scaler) (1 / y_scaler) (0, 0)
              \<and> polygons = map_points (\<lambda>(x, y). (x / x_scaler, y / y_scaler))
                             (mask_to_polygons env cls_mask epsilon))"
proof -
  have "\<exists>cls_idx<length classes. \<exists>cls_mask.
              channel msk cls_idx = Inr cls_mask \<and> poly_type = classes ! cls_idx + 1
              \<and> polygons = scale (mask_to_polygons env cls_mask epsilon)
                             (1 / x_scaler) (1 / y_scaler) (0, 0)
              \<and> polygons = map_points (\<lambda>(x, y). (x / x_scaler, y / y_scaler))
                             (mask_to_polygons env cls_mask epsilon)"
    if "(poly_type, polygons) \<in> set poly_by_type" for poly_type polygons
    using get_polygons_entry [OF assms that] by (auto simp: scale_reciprocal)
  then show ?thesis
    using get_polygons_keys(1) [OF assms(1)] by auto
qed

theorem extraction_divides_by_scaler_witness:
  "get_polygons example_env ''6100_1_3'' (greater_than example_env example_mask (5 / 8)) 5 [0, 1] =
     Inr [(1, [Polygon [(0, 0), (1, 0), (1, 1), (0, 1), (0, 0)] []]), (2, [])]
   \<and> get_scalers example_env ''6100_1_3'' (shape_hw (greater_than example_env example_mask (5 / 8))) = (2, 4)
   \<and> (\<exists>cls_mask. mask_to_polygons example_env cls_mask 5 = [Polygon [(0, 0), (2, 0), (2, 4), (0, 4), (0, 0)] []]
        \<and> [Polygon [(0, 0), (1, 0), (1, 1), (0, 1), (0, 0)] []] =
            map_points (\<lambda>(x, y). (x / 2, y / 4)) (mask_to_polygons example_env cls_mask 5))"
proof -
  have run: "get_polygons example_env ''6100_1_3'' (greater_than example_env example_mask (5 / 8)) 5 [0, 1] =
     Inr [(1, [Polygon [(0, 0), (1, 0), (1, 1), (0, 1), (0, 0)] []]), (2, [])]"
    by (rule example_get_polygons)
  have sc: "get_scalers example_env ''6100_1_3'' (shape_hw (greater_than example_env example_mask (5 / 8))) = (2, 4)"
    by (simp add: example_env_def)
  from extraction_divides_by_scaler [OF run sc]
  obtain cls_mask where
    "[Polygon [(0, 0), (1, 0), (1, 1), (0, 1), (0, 0)] []] =
       map_points (\<lambda>(x, y). (x / 2, y / 4)) (mask_to_polygons example_env cls_mask 5)"
    by auto
  moreover from this have "mask_to_polygons example_env cls_mask 5 = [Polygon [(0, 0), (2, 0), (2, 4), (0, 4), (0, 0)] []]"
    by (auto simp: example_env_def map_points_def split: if_splits)
  ultimately show ?thesis using run sc by blast
qed

text \<open>
  Claim C10. For the entry at position \<open>i\<close> of the class list with value \<open>c\<close> (and no
  later entry with the same value, which would overwrite it), the extractor reads channel
  \<open>i\<close> of the mask and stores the scaled collection under PolygonType \<open>c + 1\<close>. The rows of
  the branch with reference polygons look up the key \<open>c + 1\<close> as well and carry the label
  \<open>str (c + 1)\<close> at position \<open>i\<close>. The PolygonType of every position is the position plus
  one exactly when the class list is \<open>[0, 1, ..., n - 1]\<close>.
\<close>

theorem channel_by_position_label_by_value:
  assumes "get_polygons env im_id msk epsilon classes = Inr poly_by_type"
    and "get_scalers env im_id (shape_hw msk) = (x_scaler, y_scaler)"
    and "i < length classes" and "classes ! i \<notin> set (drop (Suc i) classes)"
  shows "(\<exists>cls_mask. channel msk i = Inr cls_mask
            \<and> item2 cls_mask = (\<lambda>row col. item msk row col i)
            \<and> map_of poly_by_type (classes ! i + 1) =
                Some (scale (mask_to_polygons env cls_mask epsilon)
                        (1 / x_scaler) (1 / y_scaler) (0, 0)))
       \<and> (\<forall>train_polygons rows.
            train_rows im_id train_polygons classes = Inr rows \<longrightarrow>
            (\<exists>wkt. map_of train_polygons (classes ! i + 1) = Some wkt
               \<and> rows ! i = (im_id, str_int (classes ! i + 1), wkt)))
       \<and> ((\<forall>j<length classes. classes ! j + 1 = int j + 1)
            \<longleftrightarrow> classes = map int [0..<length classes])"
proof (intro conjI allI impI)
  from get_polygons_lookup [OF assms]
  obtain cls_mask where ch: "channel msk i = Inr cls_mask"
    and look: "map_of poly_by_type (classes ! i + 1) =
      Some (scale (mask_to_polygons env cls_mask epsilon) (1 / x_scaler) (1 / y_scaler) (0, 0))"
    by blast
  from ch have "item2 cls_mask = (\<lambda>row col. item msk row col i)"
    by (auto simp: channel_def split: if_splits)
  with ch look show "\<exists>cls_mask. channel msk i = Inr cls_mask
            \<and> item2 cls_mask = (\<lambda>row col. item msk row col i)
            \<and> map_of poly_by_type (classes ! i + 1) =
                Some (scale (mask_to_polygons env cls_mask epsilon)
                        (1 / x_scaler) (1 / y_scaler) (0, 0))"
    by blast
next
  fix train_polygons rows
  assume "train_rows im_id train_polygons classes = Inr rows"
  from list_all2_nthD [OF train_rows_Inr [OF this] assms(3)]
  show "\<exists>wkt. map_of train_polygons (classes ! i + 1) = Some wkt
               \<and> rows ! i = (im_id, str_int (classes ! i + 1), wkt)" .
next
  show "(\<forall>j<length classes. classes ! j + 1 = int j + 1)
            \<longleftrightarrow> classes = map int [0..<length classes]"
    by (rule position_is_value_iff)
qed

theorem channel_by_position_label_by_value_witness:
  "get_polygons example_env ''6100_1_3'' (greater_than example_env example_mask (5 / 8)) 5 [1, 0] =
     Inr [(2, [Polygon [(0, 0), (1, 0), (1, 1), (0, 1), (0, 0)] []]), (1, [])]
   \<and> get_scalers example_env ''6100_1_3'' (shape_hw (greater_than example_env example_mask (5 / 8))) = (2, 4)
   \<and> (0::nat) < length [1::int, 0] \<and> [1::int, 0] ! 0 \<notin> set (drop (Suc 0) [1, 0])
   \<and> (\<exists>cls_mask. channel (greater_than example_env example_mask (5 / 8)) 0 = Inr cls_mask
         \<and> item2 cls_mask 0 0 = item (greater_than example_env example_mask (5 / 8)) 0 0 0
         \<and> map_of [(2::int, [Polygon [(0, 0), (1, 0), (1, 1), (0, 1), (0, 0)] []]), (1, [])] (1 + 1) =
             Some (scale (mask_to_polygons example_env cls_mask 5) (1 / 2) (1 / 4) (0, 0)))
   \<and> train_rows ''6100_1_3'' [(1, ''A''), (2, ''B'')] [1, 0] =
        Inr [(''6100_1_3'', ''2'', ''B''), (''6100_1_3'', ''1'', ''A'')]
   \<and> [1::int, 0] \<noteq> map int [0..<length [1::int, 0]]"
proof -
  have run: "get_polygons example_env ''6100_1_3'' (greater_than example_env example_mask (5 / 8)) 5 [1, 0] =
     Inr [(2, [Polygon [(0, 0), (1, 0), (1, 1), (0, 1), (0, 0)] []]), (1, [])]"
    by (rule example_get_polygons_swapped)
  have sc: "get_scalers example_env ''6100_1_3'' (shape_hw (greater_than example_env example_mask (5 / 8))) = (2, 4)"
    by (simp add: example_env_def)
  have i: "(0::nat) < length [1::int, 0]" and last: "[1::int, 0] ! 0 \<notin> set (drop (Suc 0) [1, 0])"
    by simp_all
  have rows: "train_rows ''6100_1_3'' [(1, ''A''), (2, ''B'')] [1, 0] =
        Inr [(''6100_1_3'', ''2'', ''B''), (''6100_1_3'', ''1'', ''A'')]"
    by (simp add: train_rows_def getitem_def str_int_small)
  from channel_by_position_label_by_value [OF run sc i last]
  have "\<exists>cls_mask. channel (greater_than example_env example_mask (5 / 8)) 0 = Inr cls_mask
         \<and> item2 cls_mask = (\<lambda>row col. item (greater_than example_env example_mask (5 / 8)) row col 0)
         \<and> map_of [(2, [Polygon [(0, 0), (1, 0), (1, 1), (0, 1), (0, 0)] []]), (1, [])] ([1::int, 0] ! 0 + 1) =
             Some (scale (mask_to_polygons example_env cls_mask 5) (1 / 2) (1 / 4) (0, 0))"
    by blast
  then have "\<exists>cls_mask. channel (greater_than example_env example_mask (5 / 8)) 0 = Inr cls_mask
         \<and> item2 cls_mask 0 0 = item (greater_than example_env example_mask (5 / 8)) 0 0 0
         \<and> map_of [(2::int, [Polygon [(0, 0), (1, 0), (1, 1), (0, 1), (0, 0)] []]), (1, [])] (1 + 1) =
             Some (scale (mask_to_polygons example_env cls_mask 5) (1 / 2) (1 / 4) (0, 0))"
    by auto
  moreover have "[1::int, 0] \<noteq> map int [0..<length [1::int, 0]]"
    by (simp add: upt_rec)
  ultimately show ?thesis
    using run sc i last rows by blast
qed

text \<open>
  Claim C3. For an image with a cached mask and a non-empty entry in the reference table,
  every list of rows the task returns has one row per class-list entry, carrying the image,
  \<open>str (cls + 1)\<close> and the reference string stored under \<open>cls + 1\<close>, unchanged: the rows
  are those of \<^verbatim>\<open>train_rows\<close>, in which neither the extracted polygons nor the scores
  occur. Whenever extraction and scoring complete, the task does return these rows.
\<close>

theorem ground_truth_rows_verbatim:
  assumes "store im_id = Some cached"
    and "map_of (get_wkt_data env) im_id = Some train_polygons" and "train_polygons \<noteq> []"
  shows "(\<forall>rows. get_poly_data env store classes threshold epsilon im_id = Inr rows \<longrightarrow>
            list_all2 (\<lambda>cls row. \<exists>wkt. map_of train_polygons (cls + 1) = Some wkt
                         \<and> row = (im_id, str_int (cls + 1), wkt)) classes rows)
       \<and> (\<forall>poly_by_type logged.
            get_polygons env im_id (greater_than env cached threshold) epsilon classes = Inr poly_by_type
            \<and> log_jaccard env im_id poly_by_type train_polygons (greater_than env cached threshold)
                classes threshold = Inr logged
            \<longrightarrow> (\<exists>rows. get_poly_data env store classes threshold epsilon im_id = Inr rows
                   \<and> train_rows im_id train_polygons classes = Inr rows))"
proof -
  obtain entry entries where tp: "train_polygons = entry # entries"
    using assms(3) by (cases train_polygons) auto
  show ?thesis
  proof (intro conjI allI impI)
    fix rows
    assume "get_poly_data env store classes threshold epsilon im_id = Inr rows"
    then have "train_rows im_id train_polygons classes = Inr rows"
      using assms(2) unfolding get_poly_data_cached [where store = store, OF assms(1)] tp
      by (auto split: sum.splits)
    then show "list_all2 (\<lambda>cls row. \<exists>wkt. map_of train_polygons (cls + 1) = Some wkt
                         \<and> row = (im_id, str_int (cls + 1), wkt)) classes rows"
      by (rule train_rows_Inr)
  next
    fix poly_by_type logged
    assume ok: "get_polygons env im_id (greater_than env cached threshold) epsilon classes = Inr poly_by_type
            \<and> log_jaccard env im_id poly_by_type train_polygons (greater_than env cached threshold)
                classes threshold = Inr logged"
    then obtain rows where rows: "train_rows im_id train_polygons classes = Inr rows"
      using train_rows_total [OF log_jaccard_keys] by blast
    have "get_poly_data env store classes threshold epsilon im_id = Inr rows"
      using ok assms(2) rows unfolding get_poly_data_cached [where store = store, OF assms(1)] tp by simp
    with rows show "\<exists>rows. get_poly_data env store classes threshold epsilon im_id = Inr rows
                   \<and> train_rows im_id train_polygons classes = Inr rows"
      by blast
  qed
qed

theorem ground_truth_rows_verbatim_witness:
  "example_store ''6100_1_3'' = Some example_mask
   \<and> map_of (get_wkt_data example_env) ''6100_1_3'' =
       Some [(1, ''MULTIPOLYGON (((0 0, 1 0, 1 1, 0 0)))''), (2, ''MULTIPOLYGON EMPTY'')]
   \<and> get_poly_data example_env example_store [0, 1] (5 / 8) 5 ''6100_1_3'' =
       Inr [(''6100_1_3'', ''1'', ''MULTIPOLYGON (((0 0, 1 0, 1 1, 0 0)))''),
            (''6100_1_3'', ''2'', ''MULTIPOLYGON EMPTY'')]
   \<and> list_all2 (\<lambda>cls row. \<exists>wkt.
          map_of [(1, ''MULTIPOLYGON (((0 0, 1 0, 1 1, 0 0)))''), (2, ''MULTIPOLYGON EMPTY'')] (cls + 1)
            = Some wkt
          \<and> row = (''6100_1_3'', str_int (cls + 1), wkt)) [0, 1]
        [(''6100_1_3'', ''1'', ''MULTIPOLYGON (((0 0, 1 0, 1 1, 0 0)))''),
         (''6100_1_3'', ''2'', ''MULTIPOLYGON EMPTY'')]
   \<and> get_polygons example_env ''6100_1_3'' (greater_than example_env example_mask (5 / 8)) 5 [0, 1] =
       Inr [(1, [Polygon [(0, 0), (1, 0), (1, 1), (0, 1), (0, 0)] []]), (2, [])]
   \<and> wkt_dumps example_env [Polygon [(0, 0), (1, 0), (1, 1), (0, 1), (0, 0)] []] = ''MULTIPOLYGON (...)''"
proof -
  have st: "example_store ''6100_1_3'' = Some example_mask"
    by (simp add: example_store_def)
  have gt: "map_of (get_wkt_data example_env) ''6100_1_3'' =
       Some [(1, ''MULTIPOLYGON (((0 0, 1 0, 1 1, 0 0)))''), (2, ''MULTIPOLYGON EMPTY'')]"
    by (simp add: example_env_def)
  have ne: "[(1::int, ''MULTIPOLYGON (((0 0, 1 0, 1 1, 0 0)))''), (2, ''MULTIPOLYGON EMPTY'')] \<noteq> []"
    by simp
  note t = ground_truth_rows_verbatim [where store = example_store and env = example_env
      and classes = "[0, 1]" and threshold = "5 / 8" and epsilon = 5, OF st gt ne]
  from t [THEN conjunct1, rule_format, OF example_get_poly_data_train]
  show ?thesis
    using st gt example_get_poly_data_train example_get_polygons [of "''6100_1_3''"]
    by (simp add: example_env_def)
qed

text \<open>
  Claim C6. The code at class lists that are not strictly ascending, for images with a
  cached mask. At \<open>[1, 0]\<close> the branch with reference polygons returns the rows of
  PolygonType 2 and then 1, while the branch without them returns 1 and then 2. At
  \<open>[0, 0]\<close> the branch without reference polygons returns one row, while the branch with
  them returns two.
\<close>

theorem cached_mask_rows_at_unordered_classes:
  "example_store ''6100_1_3'' = Some example_mask
   \<and> example_store ''6020_0_0'' = Some example_mask
   \<and> get_poly_data example_env example_store [1, 0] (5 / 8) 5 ''6100_1_3'' =
       Inr [(''6100_1_3'', ''2'', ''MULTIPOLYGON EMPTY''),
            (''6100_1_3'', ''1'', ''MULTIPOLYGON (((0 0, 1 0, 1 1, 0 0)))'')]
   \<and> get_poly_data example_env example_store [1, 0] (5 / 8) 5 ''6020_0_0'' =
       Inr [(''6020_0_0'', ''1'', ''MULTIPOLYGON EMPTY''), (''6020_0_0'', ''2'', ''MULTIPOLYGON (...)'')]
   \<and> str_int 2 = ''2'' \<and> str_int 1 = ''1'' \<and> \<not> sorted_wrt (<) [2::int, 1]
   \<and> get_poly_data example_env example_store [0, 0] (5 / 8) 5 ''6020_0_0'' =
       Inr [(''6020_0_0'', ''1'', ''MULTIPOLYGON EMPTY'')]
   \<and> get_poly_data example_env example_store [0, 0] (5 / 8) 5 ''6100_1_3'' =
       Inr [(''6100_1_3'', ''1'', ''MULTIPOLYGON (((0 0, 1 0, 1 1, 0 0)))''),
            (''6100_1_3'', ''1'', ''MULTIPOLYGON (((0 0, 1 0, 1 1, 0 0)))'')]
   \<and> length [(''6020_0_0'', ''1'', ''MULTIPOLYGON EMPTY'')] \<noteq> length [0::int, 0]"
proof -
  have "example_store ''6100_1_3'' = Some example_mask" "example_store ''6020_0_0'' = Some example_mask"
    by (simp_all add: example_store_def)
  then show ?thesis
    by (simp add: example_get_poly_data_swapped example_get_poly_data_repeated
        example_get_poly_data_predicted_swapped example_get_poly_data_train_repeated str_int_small)
qed

text \<open>
  Claim C7. Mask production leaves every mask file that exists at its start unchanged and
  runs no inference for its image, whether the phase completes or aborts. Run again on
  the store a completed phase leaves, with the same arguments and input table, it runs
  no inference at all and leaves the store as it is.
\<close>

theorem cached_masks_are_skipped:
  assumes "main_masks env args sample_submission stored = (err, st)"
  shows "(\<forall>im_id cached. stored im_id = Some cached \<longrightarrow>
            files st im_id = Some cached \<and> im_id \<notin> set (predicted st))
       \<and> (err = None \<longrightarrow>
            main_masks env args sample_submission (files st) =
              (None, \<lparr>files = files st, predicted = []\<rparr>))"
proof (rule conjI)
  show "\<forall>im_id cached. stored im_id = Some cached \<longrightarrow>
            files st im_id = Some cached \<and> im_id \<notin> set (predicted st)"
  proof (intro allI impI)
    fix im_id cached
    assume c: "stored im_id = Some cached"
    from main_masks_cases [OF assms]
    consider (early) "st = \<lparr>files = stored, predicted = []\<rparr>"
      | (loop) ids where "predict_masks env ids \<lparr>files = stored, predicted = []\<rparr> = (err, st)"
      by blast
    then show "files st im_id = Some cached \<and> im_id \<notin> set (predicted st)"
    proof cases
      case early
      with c show ?thesis by simp
    next
      case loop
      from predict_masks_keeps [OF loop, of im_id cached] c
      show ?thesis by (simp add: count_list_0_iff)
    qed
  qed
  show "err = None \<longrightarrow>
            main_masks env args sample_submission (files st) =
              (None, \<lparr>files = files st, predicted = []\<rparr>)"
  proof
    assume ok: "err = None"
    with main_masks_cases [OF assms]
    obtain header reader image_ids where inp: "sample_submission = header # reader"
      "image_ids_of reader = Inr image_ids" "endswith (args_output args) ''.csv''"
      and run: "predict_masks env
                 (sorted_list_of_set
                    (to_predict env (args_train_only args) (only_ids (args_only args)) image_ids))
                 \<lparr>files = stored, predicted = []\<rparr> = (None, st)"
      by auto
    from predict_masks_success [OF run]
    have "predict_masks env
                 (sorted_list_of_set
                    (to_predict env (args_train_only args) (only_ids (args_only args)) image_ids))
                 \<lparr>files = files st, predicted = []\<rparr> = (None, \<lparr>files = files st, predicted = []\<rparr>)"
      by (intro predict_masks_all_cached) simp
    with inp show "main_masks env args sample_submission (files st) =
                (None, \<lparr>files = files st, predicted = []\<rparr>)"
      by (simp add: main_masks_def Let_def)
  qed
qed

theorem cached_masks_are_skipped_witness:
  "main_masks example_env example_args example_submission example_store =
     (None, \<lparr>files = example_store(''6030_3_3'' \<mapsto> astype example_env example_mask),
             predicted = [''6030_3_3'']\<rparr>)
   \<and> example_store ''6100_1_3'' = Some example_mask
   \<and> (example_store(''6030_3_3'' \<mapsto> astype example_env example_mask)) ''6100_1_3'' = Some example_mask
   \<and> ''6100_1_3'' \<notin> set [''6030_3_3'']
   \<and> main_masks example_env example_args example_submission
        (example_store(''6030_3_3'' \<mapsto> astype example_env example_mask)) =
      (None, \<lparr>files = example_store(''6030_3_3'' \<mapsto> astype example_env example_mask),
              predicted = []\<rparr>)"
proof -
  have st: "example_store ''6100_1_3'' = Some example_mask"
    by (simp add: example_store_def)
  from cached_masks_are_skipped [OF example_main_masks] st
  show ?thesis
    using example_main_masks by simp
qed

text \<open>
  Claim C8. The set \<^verbatim>\<open>to_predict\<close> is the set of exactly one of three modes, taken in
  this order: with the train-only flag, the images of the reference table; otherwise,
  with a non-empty only option, the identifiers it names between commas; otherwise the
  identifiers of the input rows whose class label is \<^verbatim>\<open>1\<close>. The loop visits the members
  of this set, each once.
\<close>

theorem targets_from_one_mode:
  assumes "image_ids_of reader = Inr image_ids"
  shows "to_predict env train_only (only_ids only) image_ids = spec_targets env train_only only reader
       \<and> set (sorted_list_of_set (to_predict env train_only (only_ids only) image_ids)) =
           to_predict env train_only (only_ids only) image_ids
       \<and> distinct (sorted_list_of_set (to_predict env train_only (only_ids only) image_ids))"
proof (intro conjI)
  show "to_predict env train_only (only_ids only) image_ids = spec_targets env train_only only reader"
  proof (cases "spec_mode train_only only")
    case TrainOnly
    then have "train_only" by (auto simp: spec_mode_def split: if_splits)
    with TrainOnly show ?thesis
      by (auto simp: to_predict_def spec_targets_def Let_def map_of_eq_None_iff)
  next
    case OnlyNamed
    then have m: "\<not> train_only" "only \<noteq> None" "only \<noteq> Some []"
      by (auto simp: spec_mode_def split: if_splits)
    then have "only_ids only \<noteq> {}" by (simp add: only_ids_empty_iff)
    with m OnlyNamed show ?thesis
      by (auto simp: to_predict_def spec_targets_def Let_def only_ids_def split: option.splits)
  next
    case EveryRequired
    then have m: "\<not> train_only" "only = None \<or> only = Some []"
      by (auto simp: spec_mode_def split: if_splits)
    then have "only_ids only = {}" by (simp add: only_ids_empty_iff)
    with m EveryRequired show ?thesis
      by (simp add: to_predict_def spec_targets_def Let_def image_ids_of_set [OF assms])
  qed
  show "set (sorted_list_of_set (to_predict env train_only (only_ids only) image_ids)) =
           to_predict env train_only (only_ids only) image_ids"
    by (simp add: finite_to_predict)
  show "distinct (sorted_list_of_set (to_predict env train_only (only_ids only) image_ids))"
    by simp
qed

theorem targets_from_one_mode_witness:
  "image_ids_of (tl example_submission) = Inr [''6020_0_0'', ''6040_2_2'']
   \<and> spec_targets example_env True (Some ''6100_1_3,6030_3_3'') (tl example_submission) = {''6100_1_3''}
   \<and> spec_targets example_env False (Some ''6100_1_3,6030_3_3'') (tl example_submission)
        = {''6100_1_3'', ''6030_3_3''}
   \<and> spec_targets example_env False None (tl example_submission) = {''6020_0_0'', ''6040_2_2''}
   \<and> sorted_list_of_set
        (to_predict example_env False (only_ids (Some ''6100_1_3,6030_3_3'')) [''6020_0_0'', ''6040_2_2''])
        = [''6030_3_3'', ''6100_1_3'']"
proof -
  note t = targets_from_one_mode [OF example_image_ids, where env = example_env]
  have "to_predict example_env True (only_ids (Some ''6100_1_3,6030_3_3'')) [''6020_0_0'', ''6040_2_2'']
          = {''6100_1_3''}"
    by (simp add: to_predict_def example_env_def)
  moreover have "to_predict example_env False (only_ids (Some ''6100_1_3,6030_3_3''))
          [''6020_0_0'', ''6040_2_2''] = {''6100_1_3'', ''6030_3_3''}"
    by (simp add: to_predict_def example_only_ids)
  moreover have "to_predict example_env False (only_ids None) [''6020_0_0'', ''6040_2_2'']
          = {''6020_0_0'', ''6040_2_2''}"
    by (simp add: to_predict_def only_ids_def)
  ultimately show ?thesis
    using t [of True "Some ''6100_1_3,6030_3_3''"] t [of False "Some ''6100_1_3,6030_3_3''"]
      t [of False None] example_image_ids
    by (simp add: example_sorted_targets)
qed

end
